theory Spec2Isabelle
  imports Main "HOL-Library.Word"
begin

section \<open>The ImgCast plugin: data model\<close>

text \<open>
  The plugin (\<^verbatim>\<open>src/main.ts\<close>) has two procedures of interest: \<^verbatim>\<open>getTFileFormHref\<close>, which maps
  the URL of a rendered image back to a file of the vault, and \<^verbatim>\<open>sendToImgCast\<close>, which
  uploads a file of the vault to the configured endpoint.

  A JavaScript string is modelled by \<^typ>\<open>string\<close>: one \<^typ>\<open>char\<close> stands for one code unit, so
  \<^verbatim>\<open>length\<close>, \<^verbatim>\<open>substring\<close> and \<^verbatim>\<open>startsWith\<close> count in the model what they count in the
  program. A thrown exception (or the rejection of the promise of an \<^verbatim>\<open>async\<close> function) is
  the \<open>Inl\<close> of a sum; what a procedure does to the outside world is the list of events it
  returns besides its value, in program order.
\<close>

type_synonym bytes = "8 word list"

text \<open>\<^verbatim>\<open>interface ImgCastSettings\<close> (lines 10 to 13) and \<^verbatim>\<open>DEFAULT_SETTINGS\<close> (lines 15 to 18).\<close>

record ImgCastSettings =
  baseURL :: string
  apiKey :: string

definition DEFAULT_SETTINGS :: ImgCastSettings where
  "DEFAULT_SETTINGS = \<lparr>baseURL = ''http://127.0.0.1:8080/upload'', apiKey = ''secret''\<rparr>"

text \<open>The fields of Obsidian's \<^verbatim>\<open>TFile\<close> that the plugin reads.\<close>

record TFile =
  path :: string
  extension :: string

text \<open>
  \<^verbatim>\<open>this.app.vault.adapter\<close>: the program asks only whether it is a \<^verbatim>\<open>FileSystemAdapter\<close>, and
  then for its \<^verbatim>\<open>getBasePath()\<close>.
\<close>

datatype adapter = FileSystemAdapter string | OtherAdapter

text \<open>The components of a parsed \<^verbatim>\<open>URL\<close> object that the program reads.\<close>

record URL =
  protocol :: string
  hostname :: string
  port :: string
  pathname :: string
  search :: string
  hash :: string

text \<open>
  The exceptions that can leave the two procedures: \<^verbatim>\<open>new URL\<close> throws a \<^verbatim>\<open>TypeError\<close>,
  \<^verbatim>\<open>decodeURI\<close> throws a \<^verbatim>\<open>URIError\<close>, and \<^verbatim>\<open>vault.readBinary\<close> rejects with whatever the
  storage layer reports.
\<close>

datatype exn = TypeError | URIError | ReadError string

datatype transport = HTTP | HTTPS

text \<open>\<^verbatim>\<open>new Blob([buffer], { type })\<close> and the entry \<^verbatim>\<open>form.append(name, blob, fileName)\<close>.\<close>

record blob =
  blob_parts :: "bytes list"
  blob_type :: string

record form_entry =
  entry_name :: string
  entry_value :: blob
  entry_filename :: string

type_synonym form_data = "form_entry list"

text \<open>The options object handed to \<^verbatim>\<open>request\<close> (lines 126 to 135).\<close>

record request_options =
  req_method :: string
  req_path :: string
  req_hostname :: string
  req_port :: string
  headers :: "(string \<times> string) list"

text \<open>The response as the callback of \<^verbatim>\<open>request\<close> receives it.\<close>

record response =
  statusCode :: nat
  res_headers :: "(string \<times> string) list"
  res_body :: bytes

text \<open>
  What the runtime does once the request is on its way: it calls the response callback, or
  it emits \<^verbatim>\<open>error\<close> on the request with a message. The model takes the sequence of these
  calls as an input.
\<close>

datatype net_event = OnResponse response | OnError string

text \<open>
  The effects of the program. \<open>Request t opts form\<close> is the call \<^verbatim>\<open>request(opts, callback)\<close>
  on the module \<open>t\<close>, made while \<open>form\<close> is the form built for the body; when the call
  returns, the encoding of \<open>form\<close> is piped into the request.
\<close>

datatype event =
    Notice string
  | ConsoleDebug string string
  | ConsoleError string string
  | ReadBinary TFile
  | Request transport request_options form_data
  | ShowMenu TFile

section \<open>What the program uses from its platform\<close>

text \<open>
  The program calls into the browser, Node, Obsidian and three packages. None of that code
  belongs to the repository, so the model takes those functions as parameters: every theorem
  below that speaks of a \<open>platform\<close> holds whatever they compute.
  \<^item> \<open>URL_new\<close>: \<^verbatim>\<open>new URL(href)\<close>; \<open>None\<close> when the constructor throws \<^verbatim>\<open>TypeError\<close>.
  \<^item> \<open>decodeURI\<close>: the global \<^verbatim>\<open>decodeURI\<close>; \<open>None\<close> when it throws \<^verbatim>\<open>URIError\<close>.
  \<^item> \<open>resolve\<close>: \<^verbatim>\<open>path.resolve\<close> with one argument (it reads the working directory).
  \<^item> \<open>normalizePath\<close>: Obsidian's \<^verbatim>\<open>normalizePath\<close>.
  \<^item> \<open>basename\<close>: \<^verbatim>\<open>path.basename\<close> with one argument.
  \<^item> \<open>mime_getType\<close>: \<^verbatim>\<open>mime.getType\<close>; \<open>None\<close> for \<^verbatim>\<open>null\<close>.
  \<^item> \<open>encoder_headers\<close>: the \<^verbatim>\<open>headers\<close> of \<^verbatim>\<open>new FormDataEncoder(form)\<close>.
  \<^item> \<open>request_throws\<close>: whether the call \<^verbatim>\<open>http.request(options, callback)\<close> or
    \<^verbatim>\<open>https.request(options, callback)\<close> throws: Node checks the options when the request is
    created and throws on a malformed one, such as a header value with a line feed in it.
    \<open>None\<close> when the call returns the request.
\<close>

record platform =
  URL_new :: "string \<Rightarrow> URL option"
  decodeURI :: "string \<Rightarrow> string option"
  resolve :: "string \<Rightarrow> string"
  normalizePath :: "string \<Rightarrow> string"
  basename :: "string \<Rightarrow> string"
  mime_getType :: "string \<Rightarrow> string option"
  encoder_headers :: "form_data \<Rightarrow> (string \<times> string) list"
  request_throws :: "transport \<Rightarrow> request_options \<Rightarrow> exn option"

text \<open>
  \<^verbatim>\<open>this.app.vault\<close>: its adapter, the files it indexes, and what reading one of them yields.
\<close>

record vault =
  adapter :: adapter
  files :: "TFile list"
  readBinary :: "TFile \<Rightarrow> exn + bytes"

text \<open>\<^verbatim>\<open>vault.getFileByPath\<close>: the indexed file with exactly this path, or \<^verbatim>\<open>null\<close>.\<close>

definition getFileByPath :: "vault \<Rightarrow> string \<Rightarrow> TFile option" where
  "getFileByPath V p = find (\<lambda>f. path f = p) (files V)"

section \<open>String primitives of the language\<close>

text \<open>\<^verbatim>\<open>s.substring(start)\<close> for a start that is not negative.\<close>

definition substring :: "nat \<Rightarrow> string \<Rightarrow> string" where
  "substring start s = drop start s"

text \<open>\<^verbatim>\<open>s.startsWith(p)\<close>.\<close>

definition startsWith :: "string \<Rightarrow> string \<Rightarrow> bool" where
  "startsWith s p = (take (length p) s = p)"

text \<open>The decimal digits of a number, as a template literal prints it.\<close>

fun show_nat :: "nat \<Rightarrow> string" where
  "show_nat n =
     (if n < 10 then [''0123456789'' ! n]
      else show_nat (n div 10) @ [''0123456789'' ! (n mod 10)])"

text \<open>
  \<^verbatim>\<open>{ ...obj, key: value }\<close>: the entries of \<open>obj\<close> in their order, the one under \<open>key\<close>
  overwritten in place, or the new entry at the end.
\<close>

fun assign :: "string \<Rightarrow> string \<Rightarrow> (string \<times> string) list \<Rightarrow> (string \<times> string) list" where
  "assign k v [] = [(k, v)]"
| "assign k v ((k', v') # hs) = (if k' = k then (k, v) # hs else (k', v') # assign k v hs)"

section \<open>Resolving a displayed URL: \<^verbatim>\<open>getTFileFormHref\<close>\<close>

text \<open>
  Lines 92 to 94: the value of \<^verbatim>\<open>filePath\<close> once the URL is parsed, the leading slash of its
  path removed, the rest percent-decoded and resolved. This is the spec's decoded canonical
  path.
\<close>

definition canonical_path :: "platform \<Rightarrow> string \<Rightarrow> exn + string" where
  "canonical_path P href =
     (case URL_new P href of
        None \<Rightarrow> Inl TypeError
      | Some url \<Rightarrow>
          (case decodeURI P (substring 1 (pathname url)) of
             None \<Rightarrow> Inl URIError
           | Some decoded \<Rightarrow> Inr (resolve P decoded)))"

definition unsupported_adapter_notice :: string where
  "unsupported_adapter_notice =
     ''ImgCast: Unable to resolve image path. Please use FileSystemAdapter.''"

text \<open>Lines 91 to 109.\<close>

definition getTFileFormHref :: "platform \<Rightarrow> vault \<Rightarrow> string \<Rightarrow> event list \<times> (exn + TFile option)" where
  "getTFileFormHref P V href =
     (case canonical_path P href of
        Inl e \<Rightarrow> ([], Inl e)
      | Inr filePath \<Rightarrow>
          (case adapter V of
             FileSystemAdapter basePath \<Rightarrow>
               (let stripped =
                      (if startsWith filePath basePath
                       then substring (length basePath + 1) filePath
                       else filePath);
                    normalized = normalizePath P stripped
                in ([ConsoleDebug ''Base path:'' basePath,
                     ConsoleDebug ''Resolved file path:'' normalized],
                    Inr (getFileByPath V normalized)))
           | OtherAdapter \<Rightarrow> ([Notice unsupported_adapter_notice], Inr None)))"


section \<open>Uploading a file: \<^verbatim>\<open>sendToImgCast\<close>\<close>

definition missing_base_url_notice :: string where
  "missing_base_url_notice = ''ImgCast: Base URL is not set in settings.''"

definition success_notice :: string where
  "success_notice = ''ImgCast: Image sent successfully!''"

text \<open>Lines 135 to 141, the response callback.\<close>

definition on_response :: "response \<Rightarrow> event list" where
  "on_response res =
     (if statusCode res \<noteq> 200
      then [Notice (''ImgCast: Error - '' @ show_nat (statusCode res))]
      else [Notice success_notice])"

text \<open>Lines 143 to 146, the handler of the request's \<^verbatim>\<open>error\<close> event.\<close>

definition on_error :: "string \<Rightarrow> event list" where
  "on_error message =
     [ConsoleError ''ImgCast Request Error:'' message,
      Notice (''ImgCast: Request failed - '' @ message)]"

fun callback :: "net_event \<Rightarrow> event list" where
  "callback (OnResponse res) = on_response res"
| "callback (OnError message) = on_error message"

text \<open>Line 123: \<^verbatim>\<open>mime.getType(file.extension) || 'application/octet-stream'\<close>.\<close>

definition content_type :: "platform \<Rightarrow> TFile \<Rightarrow> string" where
  "content_type P file =
     (case mime_getType P (extension file) of
        None \<Rightarrow> ''application/octet-stream''
      | Some t \<Rightarrow> if t = [] then ''application/octet-stream'' else t)"

text \<open>
  Lines 111 to 150. The promise of the \<^verbatim>\<open>async\<close> function is rejected (\<open>Inl\<close>) when
  \<^verbatim>\<open>new URL\<close>, \<^verbatim>\<open>decodeURI\<close> or \<^verbatim>\<open>readBinary\<close> fails, and when the call of \<^verbatim>\<open>request\<close>
  throws; no caller awaits or catches it (lines 44, 63 and 83). When \<^verbatim>\<open>request\<close> throws,
  the error handler is never registered and nothing is piped, so no callback follows.
  \<open>net\<close> is what the runtime reports back for a request that was created.
\<close>

definition sendToImgCast ::
    "platform \<Rightarrow> vault \<Rightarrow> ImgCastSettings \<Rightarrow> net_event list \<Rightarrow> TFile \<Rightarrow> event list \<times> (exn + unit)" where
  "sendToImgCast P V settings net file =
     (if baseURL settings = [] then ([Notice missing_base_url_notice], Inr ())
      else case URL_new P (baseURL settings) of
        None \<Rightarrow> ([], Inl TypeError)
      | Some url \<Rightarrow>
          (let request = (if protocol url = ''https:'' then HTTPS else HTTP) in
           case decodeURI P (path file) of
             None \<Rightarrow> ([], Inl URIError)
           | Some decoded \<Rightarrow>
               (let fileName = basename P decoded in
                case readBinary V file of
                  Inl e \<Rightarrow> ([ReadBinary file], Inl e)
                | Inr buffer \<Rightarrow>
                    (let form =
                           [\<lparr>entry_name = ''image'',
                             entry_value = \<lparr>blob_parts = [buffer], blob_type = content_type P file\<rparr>,
                             entry_filename = fileName\<rparr>];
                         options =
                           \<lparr>req_method = ''POST'',
                            req_path = pathname url,
                            req_hostname = hostname url,
                            req_port = port url,
                            headers = assign ''X-API-Key'' (apiKey settings) (encoder_headers P form)\<rparr>
                     in case request_throws P request options of
                          Some e \<Rightarrow> ([ReadBinary file, Request request options form], Inl e)
                        | None \<Rightarrow>
                            ([ReadBinary file, Request request options form]
                               @ concat (map callback net),
                             Inr ())))))"

text \<open>Projections of an event list.\<close>

fun notices :: "event list \<Rightarrow> string list" where
  "notices [] = []"
| "notices (Notice m # evs) = m # notices evs"
| "notices (_ # evs) = notices evs"

fun requests :: "event list \<Rightarrow> (transport \<times> request_options \<times> form_data) list" where
  "requests [] = []"
| "requests (Request t opts form # evs) = (t, opts, form) # requests evs"
| "requests (_ # evs) = requests evs"

fun reads :: "event list \<Rightarrow> TFile list" where
  "reads [] = []"
| "reads (ReadBinary f # evs) = f # reads evs"
| "reads (_ # evs) = reads evs"

section \<open>A concrete platform: Node on a POSIX system\<close>

text \<open>
  Closed examples need the platform's functions at concrete arguments. The definitions of
  this section compute them on the plain inputs the examples use; on such an input each
  returns what the real function returns. Where one of them answers \<open>None\<close> for an input
  outside the fragment it covers, the real function may well succeed: the examples stay
  inside the fragment, and the theorems about an arbitrary platform do not rest on these
  definitions.
\<close>

fun split_on :: "char \<Rightarrow> string \<Rightarrow> string list" where
  "split_on c [] = [[]]"
| "split_on c (x # xs) =
     (if x = c then [] # split_on c xs
      else (case split_on c xs of [] \<Rightarrow> [[x]] | y # ys \<Rightarrow> (x # y) # ys))"

fun join_with :: "char \<Rightarrow> string list \<Rightarrow> string" where
  "join_with c [] = []"
| "join_with c [s] = s"
| "join_with c (s # t # ss) = s @ c # join_with c (t # ss)"

definition lower_alpha :: string where
  "lower_alpha = ''abcdefghijklmnopqrstuvwxyz''"

definition upper_alpha :: string where
  "upper_alpha = ''ABCDEFGHIJKLMNOPQRSTUVWXYZ''"

definition digit :: string where
  "digit = ''0123456789''"

text \<open>
  A decimal numeral with no leading zero. A port of at most four digits is below 65536; a
  label of a dotted quad has at most three digits and is at most 255.
\<close>

definition plain_decimal :: "nat \<Rightarrow> string \<Rightarrow> bool" where
  "plain_decimal max_digits s =
     (s \<noteq> [] \<and> list_all (\<lambda>c. c \<in> set digit) s \<and> length s \<le> max_digits
      \<and> (length s = 1 \<or> hd s \<noteq> CHR ''0''))"

definition at_most_255 :: "string \<Rightarrow> bool" where
  "at_most_255 s =
     (case s of
        [a, b, c] \<Rightarrow>
          a = CHR ''1''
          \<or> (a = CHR ''2'' \<and> (b \<in> set ''01234'' \<or> (b = CHR ''5'' \<and> c \<in> set ''012345'')))
      | _ \<Rightarrow> True)"

subsection \<open>\<^verbatim>\<open>new URL(href)\<close> on plain hierarchical URLs\<close>

text \<open>
  The fragment: \<^verbatim>\<open>scheme://host[:port][/path][?query][#fragment]\<close> with scheme \<^verbatim>\<open>file\<close>
  (empty host, no port), \<^verbatim>\<open>http\<close> or \<^verbatim>\<open>https\<close> (a host of lower-case letters, digits and
  dots that is a dotted quad in canonical form or whose last label starts with a letter, a
  port of at most four digits);
  path, query and fragment made of characters the URL parser copies as they are, and no
  path segment made of dots or their escapes. On these the parser has nothing to
  normalise except a default port, which it drops. Everything else is answered with
  \<open>None\<close>; among that, a string with no scheme, such as the empty one, makes the real
  constructor throw as well.
\<close>

definition copied_code_points :: string where
  "copied_code_points = lower_alpha @ upper_alpha @ digit @ ''-._~!$&()*+,;=:@/%''"

text \<open>The path segments the parser removes: one or two dots, each plain or escaped.\<close>

definition dot_segment :: "string \<Rightarrow> bool" where
  "dot_segment s =
     (s \<in> set [''.'', ''%2e'', ''%2E'',
               ''..'', ''.%2e'', ''.%2E'', ''%2e.'', ''%2E.'',
               ''%2e%2e'', ''%2e%2E'', ''%2E%2e'', ''%2E%2E''])"

definition host_ok :: "string \<Rightarrow> string \<Rightarrow> bool" where
  "host_ok scheme host =
     (if scheme = ''file'' then host = []
      else (let labels = split_on (CHR ''.'') host in
            list_all (\<lambda>l. l \<noteq> [] \<and> list_all (\<lambda>c. c \<in> set (lower_alpha @ digit)) l) labels
            \<and> (hd (last labels) \<in> set lower_alpha
               \<or> (length labels = 4
                   \<and> list_all (\<lambda>l. plain_decimal 3 l \<and> at_most_255 l) labels))))"

definition port_ok :: "string \<Rightarrow> bool \<Rightarrow> string \<Rightarrow> bool" where
  "port_ok scheme has_colon p =
     (if has_colon then scheme \<noteq> ''file'' \<and> plain_decimal 4 p else True)"

definition default_port :: "string \<Rightarrow> string" where
  "default_port scheme = (if scheme = ''http'' then ''80'' else if scheme = ''https'' then ''443'' else [])"

definition URL_hier :: "string \<Rightarrow> URL option" where
  "URL_hier href =
     (let scheme = takeWhile (\<lambda>c. c \<noteq> CHR '':'') href;
          rest = drop (length scheme) href;
          after = drop 3 rest;
          authority = takeWhile (\<lambda>c. c \<notin> set ''/?#'') after;
          r1 = drop (length authority) after;
          p = takeWhile (\<lambda>c. c \<notin> set ''?#'') r1;
          r2 = drop (length p) r1;
          q = takeWhile (\<lambda>c. c \<noteq> CHR ''#'') r2;
          f = drop (length q) r2;
          host = takeWhile (\<lambda>c. c \<noteq> CHR '':'') authority;
          has_colon = (length host < length authority);
          prt = drop (length host + 1) authority
      in if scheme \<in> set [''file'', ''http'', ''https''] \<and> take 3 rest = ''://''
            \<and> host_ok scheme host \<and> port_ok scheme has_colon prt
            \<and> list_all (\<lambda>c. c \<in> set copied_code_points) p
            \<and> list_all (\<lambda>s. \<not> dot_segment s) (split_on (CHR ''/'') p)
            \<and> list_all (\<lambda>c. c \<in> set (CHR ''?'' # copied_code_points)) (drop 1 q)
            \<and> list_all (\<lambda>c. c \<in> set (CHR ''?'' # copied_code_points)) (drop 1 f)
         then Some \<lparr>protocol = scheme @ '':'',
                    hostname = host,
                    port = (if prt = default_port scheme then [] else prt),
                    pathname = (if p = [] then ''/'' else p),
                    search = (if length q \<le> 1 then [] else q),
                    hash = (if length f \<le> 1 then [] else f)\<rparr>
         else None)"

subsection \<open>\<^verbatim>\<open>decodeURI\<close> on escapes of ASCII characters\<close>

definition hex_digit :: "char \<Rightarrow> nat option" where
  "hex_digit c =
     map_of [(CHR ''0'', 0), (CHR ''1'', 1), (CHR ''2'', 2), (CHR ''3'', 3), (CHR ''4'', 4),
             (CHR ''5'', 5), (CHR ''6'', 6), (CHR ''7'', 7), (CHR ''8'', 8), (CHR ''9'', 9),
             (CHR ''a'', 10), (CHR ''b'', 11), (CHR ''c'', 12), (CHR ''d'', 13), (CHR ''e'', 14),
             (CHR ''f'', 15), (CHR ''A'', 10), (CHR ''B'', 11), (CHR ''C'', 12), (CHR ''D'', 13),
             (CHR ''E'', 14), (CHR ''F'', 15)] c"

text \<open>The characters \<^verbatim>\<open>decodeURI\<close> leaves escaped: the reserved ones and the number sign.\<close>

definition reserved_uri_set :: string where
  "reserved_uri_set = '';/?:@&=+$,#''"

text \<open>
  A percent sign must be followed by two hexadecimal digits, else \<^verbatim>\<open>URIError\<close>. An escape
  below \<^verbatim>\<open>%80\<close> is replaced by its character unless that is reserved. An escape from
  \<^verbatim>\<open>%80\<close> on starts a UTF-8 sequence in the real function; it is outside the fragment and
  answered with \<open>None\<close>.
\<close>

fun decodeURI_ascii :: "string \<Rightarrow> string option" where
  "decodeURI_ascii [] = Some []"
| "decodeURI_ascii (c # cs) =
     (if c \<noteq> CHR ''%'' then map_option ((#) c) (decodeURI_ascii cs)
      else (case cs of
              h # l # rest \<Rightarrow>
                (case (hex_digit h, hex_digit l) of
                   (Some a, Some b) \<Rightarrow>
                     (if 16 * a + b \<ge> 128 then None
                      else map_option
                             ((@) (if char_of (16 * a + b) \<in> set reserved_uri_set
                                   then [c, h, l] else [char_of (16 * a + b)]))
                             (decodeURI_ascii rest))
                 | _ \<Rightarrow> None)
            | _ \<Rightarrow> None))"

subsection \<open>\<^verbatim>\<open>path.resolve\<close> and \<^verbatim>\<open>path.basename\<close> of \<^verbatim>\<open>path.posix\<close>\<close>

text \<open>
  Empty and \<^verbatim>\<open>.\<close> segments are dropped, \<^verbatim>\<open>..\<close> removes the segment before it and is
  dropped at the root. \<open>acc\<close> holds the segments kept so far, last first.
\<close>

fun normalize_segments :: "string list \<Rightarrow> string list \<Rightarrow> string list" where
  "normalize_segments acc [] = rev acc"
| "normalize_segments acc (s # ss) =
     (if s = [] \<or> s = ''.'' then normalize_segments acc ss
      else if s = ''..'' then normalize_segments (tl acc) ss
      else normalize_segments (s # acc) ss)"

text \<open>
  One argument, and a working directory \<open>cwd\<close> that is absolute: a relative path is
  resolved against \<open>cwd\<close>, the result is absolute and normalised, with no trailing slash.
\<close>

definition posix_resolve :: "string \<Rightarrow> string \<Rightarrow> string" where
  "posix_resolve cwd p =
     (let full = (if take 1 p = ''/'' then p else cwd @ ''/'' @ p)
      in CHR ''/'' # join_with (CHR ''/'') (normalize_segments [] (split_on (CHR ''/'') full)))"

definition posix_basename :: "string \<Rightarrow> string" where
  "posix_basename p =
     rev (takeWhile (\<lambda>c. c \<noteq> CHR ''/'') (dropWhile (\<lambda>c. c = CHR ''/'') (rev p)))"

subsection \<open>Obsidian's \<^verbatim>\<open>normalizePath\<close>\<close>

text \<open>
  Runs of slashes and backslashes become one slash, the slashes at both ends are removed,
  an empty result becomes \<^verbatim>\<open>/\<close>, and a no-break space becomes a space. (The function also
  puts the string into Unicode normal form C, which changes no string of code units below
  256.)
\<close>

definition is_separator :: "char \<Rightarrow> bool" where
  "is_separator c = (c = CHR ''/'' \<or> c = CHR 0x5C)"

fun squeeze :: "bool \<Rightarrow> string \<Rightarrow> string" where
  "squeeze after_separator [] = []"
| "squeeze after_separator (c # cs) =
     (if is_separator c
      then (if after_separator then squeeze True cs else CHR ''/'' # squeeze True cs)
      else c # squeeze False cs)"

definition strip_slashes :: "string \<Rightarrow> string" where
  "strip_slashes s =
     rev (dropWhile (\<lambda>c. c = CHR ''/'') (rev (dropWhile (\<lambda>c. c = CHR ''/'') s)))"

definition unbreak :: "char \<Rightarrow> char" where
  "unbreak c = (if c = CHR 0xA0 then CHR '' '' else c)"

definition obsidian_normalizePath :: "string \<Rightarrow> string" where
  "obsidian_normalizePath p =
     (let cleaned = strip_slashes (squeeze False p)
      in map unbreak (if cleaned = [] then ''/'' else cleaned))"


subsection \<open>\<^verbatim>\<open>mime.getType\<close> and the encoder's headers\<close>

text \<open>An excerpt of the package's table, for an extension in lower case without its dot.\<close>

definition mime_types :: "(string \<times> string) list" where
  "mime_types =
     [(''png'', ''image/png''), (''jpg'', ''image/jpeg''), (''jpeg'', ''image/jpeg''),
      (''gif'', ''image/gif''), (''webp'', ''image/webp''), (''svg'', ''image/svg+xml''),
      (''bmp'', ''image/bmp''), (''txt'', ''text/plain''), (''md'', ''text/markdown''),
      (''pdf'', ''application/pdf'')]"

text \<open>
  The two headers of \<^verbatim>\<open>FormDataEncoder\<close>. The boundary, random in the package, is fixed;
  the length is that of the encoded body: per entry a header block, the bytes and a line
  break, then the closing boundary.
\<close>

definition boundary :: string where
  "boundary = ''form-data-boundary-0123456789abcdef''"

definition entry_header :: "form_entry \<Rightarrow> string" where
  "entry_header e =
     ''--'' @ boundary @ [CHR 0x0D, CHR 0x0A]
     @ ''Content-Disposition: form-data; name='' @ [CHR 0x22] @ entry_name e @ [CHR 0x22]
     @ ''; filename='' @ [CHR 0x22] @ entry_filename e @ [CHR 0x22] @ [CHR 0x0D, CHR 0x0A]
     @ ''Content-Type: ''
     @ (if blob_type (entry_value e) = [] then ''application/octet-stream''
        else blob_type (entry_value e))
     @ [CHR 0x0D, CHR 0x0A, CHR 0x0D, CHR 0x0A]"

definition content_length :: "form_data \<Rightarrow> nat" where
  "content_length form =
     sum_list (map (\<lambda>e. length (entry_header e) + length (concat (blob_parts (entry_value e))) + 2) form)
     + (2 + length boundary + 2 + 4)"

definition fixed_encoder_headers :: "form_data \<Rightarrow> (string \<times> string) list" where
  "fixed_encoder_headers form =
     [(''Content-Type'', ''multipart/form-data; boundary='' @ boundary),
      (''Content-Length'', show_nat (content_length form))]"

subsection \<open>The checks of \<^verbatim>\<open>http.request\<close> and \<^verbatim>\<open>https.request\<close>\<close>

text \<open>
  When the request is created, Node throws a \<^verbatim>\<open>TypeError\<close> for a path with a control character
  or a space in it, for a header name that is not a token, and for a header value with a
  control character other than the tab in it. (It also checks the method, which the
  program fixes to \<^verbatim>\<open>POST\<close>.) Both modules check alike.
\<close>

definition c0_characters :: string where
  "c0_characters =
     [CHR 0x00, CHR 0x01, CHR 0x02, CHR 0x03, CHR 0x04, CHR 0x05, CHR 0x06, CHR 0x07,
      CHR 0x08, CHR 0x09, CHR 0x0A, CHR 0x0B, CHR 0x0C, CHR 0x0D, CHR 0x0E, CHR 0x0F,
      CHR 0x10, CHR 0x11, CHR 0x12, CHR 0x13, CHR 0x14, CHR 0x15, CHR 0x16, CHR 0x17,
      CHR 0x18, CHR 0x19, CHR 0x1A, CHR 0x1B, CHR 0x1C, CHR 0x1D, CHR 0x1E, CHR 0x1F]"

definition token_characters :: string where
  "token_characters =
     lower_alpha @ upper_alpha @ digit @ ''^_-!#$%&*+.|~'' @ [CHR 0x27, CHR 0x60]"

definition path_ok :: "string \<Rightarrow> bool" where
  "path_ok p = list_all (\<lambda>c. c \<notin> set (CHR 0x20 # c0_characters)) p"

definition header_value_ok :: "string \<Rightarrow> bool" where
  "header_value_ok v =
     list_all (\<lambda>c. c \<notin> set (CHR 0x7F # remove1 (CHR 0x09) c0_characters)) v"

definition header_ok :: "string \<times> string \<Rightarrow> bool" where
  "header_ok h =
     (fst h \<noteq> [] \<and> list_all (\<lambda>c. c \<in> set token_characters) (fst h)
      \<and> header_value_ok (snd h))"

definition node_request_throws :: "transport \<Rightarrow> request_options \<Rightarrow> exn option" where
  "node_request_throws t opts =
     (if path_ok (req_path opts) \<and> list_all header_ok (headers opts) then None
      else Some TypeError)"

definition posix :: "string \<Rightarrow> platform" where
  "posix cwd =
     \<lparr>URL_new = URL_hier,
      decodeURI = decodeURI_ascii,
      resolve = posix_resolve cwd,
      normalizePath = obsidian_normalizePath,
      basename = posix_basename,
      mime_getType = map_of mime_types,
      encoder_headers = fixed_encoder_headers,
      request_throws = node_request_throws\<rparr>"

section \<open>Sample data for the closed examples\<close>

definition png_bytes :: bytes where
  "png_bytes = [0x89, 0x50, 0x4E, 0x47]"

text \<open>A vault kept in the directory \<^verbatim>\<open>/vault\<close>, with three images.\<close>

definition sample_vault :: vault where
  "sample_vault =
     \<lparr>adapter = FileSystemAdapter ''/vault'',
      files = [\<lparr>path = ''img.png'', extension = ''png''\<rparr>,
               \<lparr>path = ''sub/img.png'', extension = ''png''\<rparr>,
               \<lparr>path = ''other/img.png'', extension = ''png''\<rparr>],
      readBinary = (\<lambda>f. Inr png_bytes)\<rparr>"

text \<open>The same files behind a storage backend that is not the file system.\<close>

definition remote_vault :: vault where
  "remote_vault = sample_vault\<lparr>adapter := OtherAdapter\<rparr>"

definition ok_response :: response where
  "ok_response = \<lparr>statusCode = 200, res_headers = [], res_body = []\<rparr>"

definition error_response :: response where
  "error_response = \<lparr>statusCode = 500, res_headers = [], res_body = [0x6F, 0x6F, 0x70, 0x73]\<rparr>"

declare show_nat.simps [simp del]

section \<open>Auxiliary facts\<close>

lemma getFileByPath_path: "getFileByPath V k = Some f \<Longrightarrow> path f = k"
  by (auto simp: getFileByPath_def find_Some_iff)

lemma getFileByPath_member: "getFileByPath V k = Some f \<Longrightarrow> f \<in> set (files V)"
  by (auto simp: getFileByPath_def find_Some_iff)

lemma map_of_assign_same: "map_of (assign k v hs) k = Some v"
  by (induction hs) auto

lemma map_of_assign_other: "k' \<noteq> k \<Longrightarrow> map_of (assign k v hs) k' = map_of hs k'"
  by (induction hs) auto

lemma notices_append: "notices (xs @ ys) = notices xs @ notices ys"
  by (induction xs rule: notices.induct) auto

lemma requests_append: "requests (xs @ ys) = requests xs @ requests ys"
  by (induction xs rule: requests.induct) auto

lemma reads_append: "reads (xs @ ys) = reads xs @ reads ys"
  by (induction xs rule: reads.induct) auto

lemma requests_callback: "requests (callback ev) = []"
  by (cases ev) (auto simp: on_response_def on_error_def)

lemma requests_callbacks: "requests (concat (map callback net)) = []"
  by (induction net) (auto simp: requests_append requests_callback)

lemma reads_callback: "reads (callback ev) = []"
  by (cases ev) (auto simp: on_response_def on_error_def)

lemma reads_callbacks: "reads (concat (map callback net)) = []"
  by (induction net) (auto simp: reads_append reads_callback)

lemma startsWith_append: "startsWith (p @ s) p"
  by (simp add: startsWith_def)

lemma sendToImgCast_requests:
  assumes "baseURL s \<noteq> []" "URL_new P (baseURL s) = Some u"
      and "decodeURI P (path file) = Some d" "readBinary V file = Inr buffer"
  shows "requests (fst (sendToImgCast P V s net file)) =
           [(if protocol u = ''https:'' then HTTPS else HTTP,
             \<lparr>req_method = ''POST'', req_path = pathname u, req_hostname = hostname u,
              req_port = port u,
              headers = assign ''X-API-Key'' (apiKey s)
                (encoder_headers P
                   [\<lparr>entry_name = ''image'',
                     entry_value = \<lparr>blob_parts = [buffer], blob_type = content_type P file\<rparr>,
                     entry_filename = basename P d\<rparr>])\<rparr>,
             [\<lparr>entry_name = ''image'',
               entry_value = \<lparr>blob_parts = [buffer], blob_type = content_type P file\<rparr>,
               entry_filename = basename P d\<rparr>])]"
  using assms
  by (simp add: sendToImgCast_def Let_def requests_append requests_callbacks split: option.splits)

lemma sendToImgCast_outcome:
  assumes "baseURL s \<noteq> []" "URL_new P (baseURL s) = Some u"
      and "decodeURI P (path file) = Some d" "readBinary V file = Inr buffer"
      and "requests (fst (sendToImgCast P V s net file)) = [(t, opts, form)]"
  shows "snd (sendToImgCast P V s net file) =
           (case request_throws P t opts of None \<Rightarrow> Inr () | Some e \<Rightarrow> Inl e)"
proof -
  from sendToImgCast_requests [OF assms(1-4), of net] assms(5)
  have t: "t = (if protocol u = ''https:'' then HTTPS else HTTP)"
    and o: "opts =
             \<lparr>req_method = ''POST'', req_path = pathname u, req_hostname = hostname u,
              req_port = port u,
              headers = assign ''X-API-Key'' (apiKey s)
                (encoder_headers P
                   [\<lparr>entry_name = ''image'',
                     entry_value = \<lparr>blob_parts = [buffer], blob_type = content_type P file\<rparr>,
                     entry_filename = basename P d\<rparr>])\<rparr>"
    by simp_all
  show ?thesis
    unfolding t o using assms(1-4)
    by (simp add: sendToImgCast_def Let_def split: option.splits)
qed

lemma sendToImgCast_notices:
  assumes "baseURL s \<noteq> []" "URL_new P (baseURL s) = Some u"
      and "decodeURI P (path file) = Some d" "readBinary V file = Inr buffer"
  shows "notices (fst (sendToImgCast P V s net file)) =
           (if snd (sendToImgCast P V s net file) = Inr ()
            then notices (concat (map callback net)) else [])"
  using assms
  by (simp add: sendToImgCast_def Let_def notices_append split: option.splits)

lemma sendToImgCast_requests_le: "length (requests (fst (sendToImgCast P V s net file))) \<le> 1"
  by (auto simp: sendToImgCast_def Let_def requests_append requests_callbacks
      split: option.splits sum.splits)

lemma getTFileFormHref_cases:
  "canonical_path P href = Inr p \<Longrightarrow>
   getTFileFormHref P V href =
     (case adapter V of
        OtherAdapter \<Rightarrow> ([Notice unsupported_adapter_notice], Inr None)
      | FileSystemAdapter base \<Rightarrow>
          ([ConsoleDebug ''Base path:'' base,
            ConsoleDebug ''Resolved file path:''
              (normalizePath P (if startsWith p base then substring (length base + 1) p else p))],
           Inr (getFileByPath V
              (normalizePath P (if startsWith p base then substring (length base + 1) p else p)))))"
  by (simp add: getTFileFormHref_def Let_def split: adapter.splits)




lemma getTFileFormHref_under_base:
  assumes "adapter V = FileSystemAdapter base"
      and "canonical_path P href = Inr (base @ c # rel)"
  shows "getTFileFormHref P V href =
           ([ConsoleDebug ''Base path:'' base, ConsoleDebug ''Resolved file path:'' (normalizePath P rel)],
            Inr (getFileByPath V (normalizePath P rel)))"
  using assms by (simp add: getTFileFormHref_cases startsWith_append substring_def)

lemma sendToImgCast_request_transport:
  assumes "(t, opts, form) \<in> set (requests (fst (sendToImgCast P V s net file)))"
  shows "\<exists>u. URL_new P (baseURL s) = Some u \<and> t = (if protocol u = ''https:'' then HTTPS else HTTP)"
  using assms
  by (auto simp: sendToImgCast_def Let_def requests_append requests_callbacks
      split: option.splits sum.splits if_splits)

lemma callback_not_missing_base_url: "missing_base_url_notice \<notin> set (notices (callback ev))"
  by (cases ev) (auto simp: on_response_def on_error_def missing_base_url_notice_def success_notice_def)

lemma callbacks_not_missing_base_url:
  "missing_base_url_notice \<notin> set (notices (concat (map callback net)))"
  by (induction net) (auto simp: notices_append callback_not_missing_base_url)

subsection \<open>The decimal numeral determines the number\<close>

lemma show_nat_not_Nil: "show_nat n \<noteq> []"
  by (subst show_nat.simps) simp

lemma digit_nth_inject:
  "a < 10 \<Longrightarrow> b < 10 \<Longrightarrow> ''0123456789'' ! a = ''0123456789'' ! b \<Longrightarrow> a = b"
proof -
  assume a: "a < 10" and b: "b < 10" and e: "''0123456789'' ! a = ''0123456789'' ! b"
  have d: "distinct ''0123456789''" by simp
  have "a < length ''0123456789''" "b < length ''0123456789''" using a b by simp_all
  with d e show "a = b" by (simp only: nth_eq_iff_index_eq)
qed

lemma show_nat_inject: "show_nat m = show_nat n \<Longrightarrow> m = n"
proof (induction m arbitrary: n rule: show_nat.induct)
  case (1 m)
  show ?case
  proof (cases "m < 10")
    case True
    then have sm: "show_nat m = [''0123456789'' ! m]"
      by (subst show_nat.simps) simp
    show ?thesis
    proof (cases "n < 10")
      case n: True
      then have "show_nat n = [''0123456789'' ! n]"
        by (subst show_nat.simps) simp
      with sm "1.prems" have "''0123456789'' ! m = ''0123456789'' ! n" by simp
      with True n show ?thesis by (rule digit_nth_inject)
    next
      case n: False
      then have "show_nat n = show_nat (n div 10) @ [''0123456789'' ! (n mod 10)]"
        by (subst show_nat.simps) simp
      with sm "1.prems" have "show_nat (n div 10) = []" by simp
      with show_nat_not_Nil show ?thesis by blast
    qed
  next
    case False
    then have sm: "show_nat m = show_nat (m div 10) @ [''0123456789'' ! (m mod 10)]"
      by (subst show_nat.simps) simp
    show ?thesis
    proof (cases "n < 10")
      case n: True
      then have "show_nat n = [''0123456789'' ! n]"
        by (subst show_nat.simps) simp
      with sm "1.prems" have "show_nat (m div 10) = []" by simp
      with show_nat_not_Nil show ?thesis by blast
    next
      case n: False
      then have "show_nat n = show_nat (n div 10) @ [''0123456789'' ! (n mod 10)]"
        by (subst show_nat.simps) simp
      with sm "1.prems" have q: "show_nat (m div 10) = show_nat (n div 10)"
        and r: "''0123456789'' ! (m mod 10) = ''0123456789'' ! (n mod 10)" by simp_all
      from "1.IH" [OF False q] have "m div 10 = n div 10" .
      moreover have "m mod 10 = n mod 10"
        by (rule digit_nth_inject [OF _ _ r]) simp_all
      ultimately show ?thesis
        by (metis div_mult_mod_eq)
    qed
  qed
qed

lemma on_response_status:
  "notices (on_response r1) = notices (on_response r2) \<Longrightarrow> statusCode r1 = statusCode r2"
  by (auto simp: on_response_def success_notice_def split: if_splits dest: show_nat_inject)

subsection \<open>Normalising a path twice changes nothing\<close>

















lemma posix_resolve_root: "posix_resolve ''/'' d = posix_resolve cwd (CHR ''/'' # d)"
  by (cases d) (simp_all add: posix_resolve_def)


section \<open>The claims\<close>

text \<open>
  C4. For every file reference, if the configured endpoint URL is the empty string, the
  upload ends at once with the notice that the base URL is not set: that notice is its only
  effect, so no request is issued and nothing is read from storage, whatever the platform,
  the vault and the network would have done.
\<close>

theorem empty_endpoint_aborts:
  assumes "baseURL s = []"
  shows "sendToImgCast P V s net file = ([Notice missing_base_url_notice], Inr ())
       \<and> notices (fst (sendToImgCast P V s net file)) = [missing_base_url_notice]
       \<and> requests (fst (sendToImgCast P V s net file)) = []
       \<and> reads (fst (sendToImgCast P V s net file)) = []"
  using assms by (simp add: sendToImgCast_def)

theorem empty_endpoint_aborts_witness:
  "baseURL \<lparr>baseURL = [], apiKey = ''x''\<rparr> = []
   \<and> sendToImgCast (posix ''/'') sample_vault \<lparr>baseURL = [], apiKey = ''x''\<rparr>
        [OnResponse ok_response] \<lparr>path = ''sub/img.png'', extension = ''png''\<rparr>
      = ([Notice ''ImgCast: Base URL is not set in settings.''], Inr ())
   \<and> requests (fst (sendToImgCast (posix ''/'') sample_vault \<lparr>baseURL = [], apiKey = ''x''\<rparr>
        [OnResponse ok_response] \<lparr>path = ''sub/img.png'', extension = ''png''\<rparr>)) = []
   \<and> reads (fst (sendToImgCast (posix ''/'') sample_vault \<lparr>baseURL = [], apiKey = ''x''\<rparr>
        [OnResponse ok_response] \<lparr>path = ''sub/img.png'', extension = ''png''\<rparr>)) = []"
  using empty_endpoint_aborts [of "\<lparr>baseURL = [], apiKey = ''x''\<rparr>" "posix ''/''" sample_vault
      "[OnResponse ok_response]" "\<lparr>path = ''sub/img.png'', extension = ''png''\<rparr>"]
  by (simp add: missing_base_url_notice_def)

text \<open>
  C1. The claim: with the vault in \<^verbatim>\<open>/vault\<close>, a displayed URL whose canonical path is
  \<^verbatim>\<open>/vault2/img.png\<close> must not resolve to any file, while \<^verbatim>\<open>/vault/sub/img.png\<close> resolves to
  \<^verbatim>\<open>sub/img.png\<close>. The program does otherwise. Its test of line 99 compares raw strings, and
  line 100 drops the base directory together with the character after it: whenever the
  canonical path is the base directory, any character \<open>c\<close> and a rest, resolution issues no
  notice and returns what the storage index holds under the rest, normalised. \<open>c\<close> need
  not be a separator.
\<close>

theorem shared_prefix_is_stripped:
  assumes "adapter V = FileSystemAdapter base"
      and "canonical_path P href = Inr (base @ c # rest)"
  shows "snd (getTFileFormHref P V href) = Inr (getFileByPath V (normalizePath P rest))
       \<and> notices (fst (getTFileFormHref P V href)) = []"
  using assms by (simp add: getTFileFormHref_under_base)

text \<open>
  At the inputs of the claim, with the working directory \<^verbatim>\<open>/\<close>: the sibling
  \<^verbatim>\<open>/vault2/img.png\<close> resolves to the vault's own \<^verbatim>\<open>img.png\<close>, and \<^verbatim>\<open>/vault/sub/img.png\<close> resolves
  to \<^verbatim>\<open>sub/img.png\<close>.
\<close>

theorem sibling_directory_resolves_to_vault_file:
  "adapter sample_vault = FileSystemAdapter ''/vault''
   \<and> canonical_path (posix ''/'') ''file:///vault2/img.png'' = Inr (''/vault'' @ CHR ''2'' # ''/img.png'')
   \<and> snd (getTFileFormHref (posix ''/'') sample_vault ''file:///vault2/img.png'')
       = Inr (Some \<lparr>path = ''img.png'', extension = ''png''\<rparr>)
   \<and> notices (fst (getTFileFormHref (posix ''/'') sample_vault ''file:///vault2/img.png'')) = []
   \<and> canonical_path (posix ''/'') ''file:///vault/sub/img.png'' = Inr (''/vault'' @ CHR ''/'' # ''sub/img.png'')
   \<and> snd (getTFileFormHref (posix ''/'') sample_vault ''file:///vault/sub/img.png'')
       = Inr (Some \<lparr>path = ''sub/img.png'', extension = ''png''\<rparr>)"
proof -
  have a: "adapter sample_vault = FileSystemAdapter ''/vault''"
    by (simp add: sample_vault_def)
  have c: "canonical_path (posix ''/'') ''file:///vault2/img.png'' = Inr (''/vault'' @ CHR ''2'' # ''/img.png'')"
    by code_simp
  have l: "getFileByPath sample_vault (normalizePath (posix ''/'') ''/img.png'')
       = Some \<lparr>path = ''img.png'', extension = ''png''\<rparr>"
    by code_simp
  note T = shared_prefix_is_stripped [OF a c]
  have s: "snd (getTFileFormHref (posix ''/'') sample_vault ''file:///vault2/img.png'')
       = Inr (Some \<lparr>path = ''img.png'', extension = ''png''\<rparr>)"
    using T [THEN conjunct1] by (simp only: l)
  have n: "notices (fst (getTFileFormHref (posix ''/'') sample_vault ''file:///vault2/img.png'')) = []"
    by (rule T [THEN conjunct2])
  have c': "canonical_path (posix ''/'') ''file:///vault/sub/img.png'' = Inr (''/vault'' @ CHR ''/'' # ''sub/img.png'')"
    by code_simp
  have l': "getFileByPath sample_vault (normalizePath (posix ''/'') ''sub/img.png'')
       = Some \<lparr>path = ''sub/img.png'', extension = ''png''\<rparr>"
    by code_simp
  have s': "snd (getTFileFormHref (posix ''/'') sample_vault ''file:///vault/sub/img.png'')
       = Inr (Some \<lparr>path = ''sub/img.png'', extension = ''png''\<rparr>)"
    using shared_prefix_is_stripped [OF a c', THEN conjunct1] by (simp only: l')
  show ?thesis
    by (intro conjI a c s n c' s')
qed

text \<open>
  C2, as stated, fails. With the vault in \<^verbatim>\<open>/vault\<close> on the file system, the URL
  \<^verbatim>\<open>file:///other/img.png\<close> has the canonical path \<^verbatim>\<open>/other/img.png\<close>, outside the base
  directory. Resolution reports nothing and returns the vault's file \<^verbatim>\<open>other/img.png\<close>.
\<close>

theorem outside_base_counterexample:
  "adapter sample_vault = FileSystemAdapter ''/vault''
   \<and> canonical_path (posix ''/'') ''file:///other/img.png'' = Inr ''/other/img.png''
   \<and> \<not> startsWith ''/other/img.png'' ''/vault''
   \<and> notices (fst (getTFileFormHref (posix ''/'') sample_vault ''file:///other/img.png'')) = []
   \<and> snd (getTFileFormHref (posix ''/'') sample_vault ''file:///other/img.png'')
       = Inr (Some \<lparr>path = ''other/img.png'', extension = ''png''\<rparr>)"
  by code_simp

text \<open>
  C2, amended. For every displayed URL that parses and decodes, with canonical path \<open>p\<close>:
  when the storage backend is not the file system, resolution ends with the notice that the
  adapter is unsupported and returns no file; when it is the file system and \<open>p\<close> does not
  start with the base directory, resolution issues no notice and returns what the storage
  index holds under the whole of \<open>p\<close>, normalised, so a file it returns is a file of the vault
  stored under exactly that path.
\<close>

theorem unsupported_backend_or_plain_lookup:
  assumes "canonical_path P href = Inr p"
  shows "(adapter V = OtherAdapter \<longrightarrow>
            getTFileFormHref P V href = ([Notice unsupported_adapter_notice], Inr None))
       \<and> (\<forall>base. adapter V = FileSystemAdapter base \<and> \<not> startsWith p base \<longrightarrow>
            notices (fst (getTFileFormHref P V href)) = []
            \<and> snd (getTFileFormHref P V href) = Inr (getFileByPath V (normalizePath P p))
            \<and> (\<forall>f. snd (getTFileFormHref P V href) = Inr (Some f) \<longrightarrow>
                 f \<in> set (files V) \<and> path f = normalizePath P p))"
  using assms
  by (auto simp: getTFileFormHref_cases dest: getFileByPath_path getFileByPath_member)

theorem unsupported_backend_or_plain_lookup_witness:
  "canonical_path (posix ''/'') ''file:///other/pic.png'' = Inr ''/other/pic.png''
   \<and> adapter remote_vault = OtherAdapter
   \<and> getTFileFormHref (posix ''/'') remote_vault ''file:///other/pic.png''
       = ([Notice ''ImgCast: Unable to resolve image path. Please use FileSystemAdapter.''], Inr None)
   \<and> adapter sample_vault = FileSystemAdapter ''/vault''
   \<and> \<not> startsWith ''/other/pic.png'' ''/vault''
   \<and> notices (fst (getTFileFormHref (posix ''/'') sample_vault ''file:///other/pic.png'')) = []
   \<and> snd (getTFileFormHref (posix ''/'') sample_vault ''file:///other/pic.png'') = Inr None"
proof -
  have c: "canonical_path (posix ''/'') ''file:///other/pic.png'' = Inr ''/other/pic.png''"
    by code_simp
  have r: "adapter remote_vault = OtherAdapter"
    by (simp add: remote_vault_def)
  have a: "adapter sample_vault = FileSystemAdapter ''/vault''"
    by (simp add: sample_vault_def)
  have n: "\<not> startsWith ''/other/pic.png'' ''/vault''"
    by (simp add: startsWith_def)
  have l: "getFileByPath sample_vault (normalizePath (posix ''/'') ''/other/pic.png'') = None"
    by code_simp
  from unsupported_backend_or_plain_lookup [OF c, of remote_vault]
       unsupported_backend_or_plain_lookup [OF c, of sample_vault] c r a n l
  show ?thesis
    by (simp add: unsupported_adapter_notice_def)
qed





text \<open>
  C5, as stated, fails on the file name. The name sent with the part is the base name of
  the file's path after \<^verbatim>\<open>decodeURI\<close> (line 119), so a file whose own name holds a percent
  escape is sent under another name: \<^verbatim>\<open>shots/my%20image.png\<close> goes out as \<^verbatim>\<open>my image.png\<close>.
\<close>

theorem decoded_filename_counterexample:
  "map (\<lambda>(t, opts, form). map entry_filename form)
       (requests (fst (sendToImgCast (posix ''/'') sample_vault DEFAULT_SETTINGS [OnResponse ok_response]
                          \<lparr>path = ''shots/my%20image.png'', extension = ''png''\<rparr>)))
     = [[''my image.png'']]
   \<and> posix_basename (path \<lparr>path = ''shots/my%20image.png'', extension = ''png''\<rparr>) = ''my%20image.png''"
  by code_simp

text \<open>
  C5, amended. Whenever the upload gets as far as its request (the endpoint is not empty
  and parses, the file's path percent-decodes to \<open>d\<close>, and the storage read yields
  \<open>buffer\<close>), exactly one request is issued, whatever the network does afterwards. Its
  method is POST; its body is the encoding of a form with exactly one entry, named
  \<^verbatim>\<open>image\<close>, whose payload is \<open>buffer\<close>, whose file name is the base name of \<open>d\<close>, and whose
  content type is the MIME type found for the file's extension, or
  \<^verbatim>\<open>application/octet-stream\<close> when none is found; its \<^verbatim>\<open>X-API-Key\<close> header is the configured
  key, and every other header is the encoder's.
\<close>

theorem upload_request_shape:
  assumes "baseURL s \<noteq> []"
      and "URL_new P (baseURL s) = Some u"
      and "decodeURI P (path file) = Some d"
      and "readBinary V file = Inr buffer"
  shows "\<exists>t opts.
           requests (fst (sendToImgCast P V s net file)) =
             [(t, opts,
               [\<lparr>entry_name = ''image'',
                 entry_value = \<lparr>blob_parts = [buffer], blob_type = content_type P file\<rparr>,
                 entry_filename = basename P d\<rparr>])]
           \<and> req_method opts = ''POST''
           \<and> map_of (headers opts) ''X-API-Key'' = Some (apiKey s)
           \<and> (mime_getType P (extension file) = None \<longrightarrow>
                content_type P file = ''application/octet-stream'')
           \<and> (\<forall>m. mime_getType P (extension file) = Some m \<and> m \<noteq> [] \<longrightarrow>
                content_type P file = m)
           \<and> (\<forall>k. k \<noteq> ''X-API-Key'' \<longrightarrow>
                map_of (headers opts) k
                  = map_of (encoder_headers P
                      [\<lparr>entry_name = ''image'',
                        entry_value = \<lparr>blob_parts = [buffer], blob_type = content_type P file\<rparr>,
                        entry_filename = basename P d\<rparr>]) k)"
  using assms
  by (simp add: sendToImgCast_requests map_of_assign_same map_of_assign_other content_type_def)

theorem upload_request_shape_witness:
  "baseURL DEFAULT_SETTINGS \<noteq> []
   \<and> URL_new (posix ''/'') (baseURL DEFAULT_SETTINGS)
       = Some \<lparr>protocol = ''http:'', hostname = ''127.0.0.1'', port = ''8080'',
                pathname = ''/upload'', search = [], hash = []\<rparr>
   \<and> decodeURI (posix ''/'') (path \<lparr>path = ''sub/img.png'', extension = ''png''\<rparr>) = Some ''sub/img.png''
   \<and> readBinary sample_vault \<lparr>path = ''sub/img.png'', extension = ''png''\<rparr> = Inr png_bytes
   \<and> mime_getType (posix ''/'') (extension \<lparr>path = ''sub/img.png'', extension = ''png''\<rparr>) = Some ''image/png''
   \<and> (\<exists>t opts.
         requests (fst (sendToImgCast (posix ''/'') sample_vault DEFAULT_SETTINGS [OnResponse ok_response]
                          \<lparr>path = ''sub/img.png'', extension = ''png''\<rparr>)) =
           [(t, opts,
             [\<lparr>entry_name = ''image'',
               entry_value = \<lparr>blob_parts = [png_bytes], blob_type = ''image/png''\<rparr>,
               entry_filename = ''img.png''\<rparr>])]
         \<and> req_method opts = ''POST''
         \<and> map_of (headers opts) ''X-API-Key'' = Some ''secret'')"
proof -
  have b: "baseURL DEFAULT_SETTINGS \<noteq> []"
    by (simp add: DEFAULT_SETTINGS_def)
  have u: "URL_new (posix ''/'') (baseURL DEFAULT_SETTINGS)
       = Some \<lparr>protocol = ''http:'', hostname = ''127.0.0.1'', port = ''8080'',
                pathname = ''/upload'', search = [], hash = []\<rparr>"
    by code_simp
  have d: "decodeURI (posix ''/'') (path \<lparr>path = ''sub/img.png'', extension = ''png''\<rparr>) = Some ''sub/img.png''"
    by code_simp
  have r: "readBinary sample_vault \<lparr>path = ''sub/img.png'', extension = ''png''\<rparr> = Inr png_bytes"
    by (simp add: sample_vault_def)
  have m: "mime_getType (posix ''/'') (extension \<lparr>path = ''sub/img.png'', extension = ''png''\<rparr>) = Some ''image/png''"
    by code_simp
  have k: "apiKey DEFAULT_SETTINGS = ''secret''"
    by (simp add: DEFAULT_SETTINGS_def)
  have n: "basename (posix ''/'') ''sub/img.png'' = ''img.png''"
    by code_simp
  from upload_request_shape [OF b u d r, of "[OnResponse ok_response]"]
  obtain t opts where
    q: "requests (fst (sendToImgCast (posix ''/'') sample_vault DEFAULT_SETTINGS [OnResponse ok_response]
                          \<lparr>path = ''sub/img.png'', extension = ''png''\<rparr>)) =
           [(t, opts,
             [\<lparr>entry_name = ''image'',
               entry_value = \<lparr>blob_parts = [png_bytes],
                 blob_type = content_type (posix ''/'') \<lparr>path = ''sub/img.png'', extension = ''png''\<rparr>\<rparr>,
               entry_filename = basename (posix ''/'') ''sub/img.png''\<rparr>])]"
    and p: "req_method opts = ''POST''"
    and x: "map_of (headers opts) ''X-API-Key'' = Some (apiKey DEFAULT_SETTINGS)"
    and c: "\<forall>m. mime_getType (posix ''/'') (extension \<lparr>path = ''sub/img.png'', extension = ''png''\<rparr>) = Some m \<and> m \<noteq> [] \<longrightarrow>
                content_type (posix ''/'') \<lparr>path = ''sub/img.png'', extension = ''png''\<rparr> = m"
    by blast
  from c m have ct: "content_type (posix ''/'') \<lparr>path = ''sub/img.png'', extension = ''png''\<rparr> = ''image/png''"
    by simp
  have e: "\<exists>t opts.
         requests (fst (sendToImgCast (posix ''/'') sample_vault DEFAULT_SETTINGS [OnResponse ok_response]
                          \<lparr>path = ''sub/img.png'', extension = ''png''\<rparr>)) =
           [(t, opts,
             [\<lparr>entry_name = ''image'',
               entry_value = \<lparr>blob_parts = [png_bytes], blob_type = ''image/png''\<rparr>,
               entry_filename = ''img.png''\<rparr>])]
         \<and> req_method opts = ''POST''
         \<and> map_of (headers opts) ''X-API-Key'' = Some ''secret''"
    using q p x by (simp only: ct n k) blast
  show ?thesis
    by (intro conjI b u d r m e)
qed

text \<open>
  C6. On a response, the callback issues exactly one notice. It is the success notice
  exactly when the status code is 200; for any other status it is the error notice that
  ends in the decimal status code, and the notice determines the status code. The notice
  does not depend on the headers or the body of the response. When the upload has created
  its request (the endpoint is not empty and parses, the file's path decodes, the storage
  read succeeds and the promise is not rejected) and the runtime reports a response, the
  notices of the whole upload are those of the callback.
\<close>

theorem response_notice_by_status:
  "(notices (on_response res) = [success_notice]) = (statusCode res = 200)
   \<and> (statusCode res \<noteq> 200 \<longrightarrow>
        notices (on_response res) = [''ImgCast: Error - '' @ show_nat (statusCode res)])
   \<and> length (notices (on_response res)) = 1
   \<and> (\<forall>res'. notices (on_response res') = notices (on_response res) \<longrightarrow>
        statusCode res' = statusCode res)
   \<and> on_response (res\<lparr>res_headers := h, res_body := b\<rparr>) = on_response res
   \<and> (baseURL s \<noteq> [] \<and> URL_new P (baseURL s) = Some u \<and> decodeURI P (path file) = Some d
        \<and> readBinary V file = Inr buffer
        \<and> snd (sendToImgCast P V s [OnResponse res] file) = Inr () \<longrightarrow>
        notices (fst (sendToImgCast P V s [OnResponse res] file)) = notices (on_response res))"
proof -
  have 1: "(notices (on_response res) = [success_notice]) = (statusCode res = 200)"
    by (simp add: on_response_def success_notice_def)
  have 2: "statusCode res \<noteq> 200 \<longrightarrow>
        notices (on_response res) = [''ImgCast: Error - '' @ show_nat (statusCode res)]"
    by (simp add: on_response_def)
  have 3: "length (notices (on_response res)) = 1"
    by (simp add: on_response_def)
  have 4: "\<forall>res'. notices (on_response res') = notices (on_response res) \<longrightarrow>
        statusCode res' = statusCode res"
    using on_response_status by blast
  have 5: "on_response (res\<lparr>res_headers := h, res_body := b\<rparr>) = on_response res"
    by (simp add: on_response_def)
  have 6: "baseURL s \<noteq> [] \<and> URL_new P (baseURL s) = Some u \<and> decodeURI P (path file) = Some d
        \<and> readBinary V file = Inr buffer
        \<and> snd (sendToImgCast P V s [OnResponse res] file) = Inr () \<longrightarrow>
        notices (fst (sendToImgCast P V s [OnResponse res] file)) = notices (on_response res)"
    by (simp add: sendToImgCast_notices)
  show ?thesis
    by (intro conjI 1 2 3 4 5 6)
qed

theorem response_notice_by_status_witness:
  "statusCode error_response \<noteq> 200
   \<and> notices (on_response error_response) = [''ImgCast: Error - 500'']
   \<and> notices (on_response error_response) \<noteq> [success_notice]
   \<and> notices (on_response ok_response) = [''ImgCast: Image sent successfully!'']
   \<and> snd (sendToImgCast (posix ''/'') sample_vault DEFAULT_SETTINGS [OnResponse error_response]
         \<lparr>path = ''sub/img.png'', extension = ''png''\<rparr>) = Inr ()
   \<and> notices (fst (sendToImgCast (posix ''/'') sample_vault DEFAULT_SETTINGS [OnResponse error_response]
         \<lparr>path = ''sub/img.png'', extension = ''png''\<rparr>)) = [''ImgCast: Error - 500'']"
proof -
  note T = response_notice_by_status [of error_response _ _ DEFAULT_SETTINGS "posix ''/''"
      "\<lparr>protocol = ''http:'', hostname = ''127.0.0.1'', port = ''8080'',
                pathname = ''/upload'', search = [], hash = []\<rparr>"
      "\<lparr>path = ''sub/img.png'', extension = ''png''\<rparr>" "''sub/img.png''" sample_vault png_bytes]
  note U = response_notice_by_status [of ok_response]
  have s5: "show_nat 500 = ''500''"
    by code_simp
  have c: "statusCode error_response \<noteq> 200"
    by (simp add: error_response_def)
  have c5: "statusCode error_response = 500"
    by (simp add: error_response_def)
  from T c have "notices (on_response error_response)
      = [''ImgCast: Error - '' @ show_nat (statusCode error_response)]"
    by blast
  then have e: "notices (on_response error_response) = [''ImgCast: Error - 500'']"
    by (simp add: c5 s5)
  have n: "notices (on_response error_response) \<noteq> [success_notice]"
    using T c by blast
  have "statusCode ok_response = 200"
    by (simp add: ok_response_def)
  with U have "notices (on_response ok_response) = [success_notice]"
    by blast
  then have o: "notices (on_response ok_response) = [''ImgCast: Image sent successfully!'']"
    by (simp add: success_notice_def)
  have b: "baseURL DEFAULT_SETTINGS \<noteq> []"
    by (simp add: DEFAULT_SETTINGS_def)
  have u: "URL_new (posix ''/'') (baseURL DEFAULT_SETTINGS)
       = Some \<lparr>protocol = ''http:'', hostname = ''127.0.0.1'', port = ''8080'',
                pathname = ''/upload'', search = [], hash = []\<rparr>"
    by code_simp
  have d: "decodeURI (posix ''/'') (path \<lparr>path = ''sub/img.png'', extension = ''png''\<rparr>) = Some ''sub/img.png''"
    by code_simp
  have r: "readBinary sample_vault \<lparr>path = ''sub/img.png'', extension = ''png''\<rparr> = Inr png_bytes"
    by (simp add: sample_vault_def)
  have a: "snd (sendToImgCast (posix ''/'') sample_vault DEFAULT_SETTINGS [OnResponse error_response]
         \<lparr>path = ''sub/img.png'', extension = ''png''\<rparr>) = Inr ()"
    by code_simp
  from T b u d r a
  have "notices (fst (sendToImgCast (posix ''/'') sample_vault DEFAULT_SETTINGS [OnResponse error_response]
         \<lparr>path = ''sub/img.png'', extension = ''png''\<rparr>)) = notices (on_response error_response)"
    by blast
  with e have f: "notices (fst (sendToImgCast (posix ''/'') sample_vault DEFAULT_SETTINGS [OnResponse error_response]
         \<lparr>path = ''sub/img.png'', extension = ''png''\<rparr>)) = [''ImgCast: Error - 500'']"
    by simp
  show ?thesis
    by (intro conjI c e n o a f)
qed




text \<open>
  C8. An upload issues at most one request, whatever the runtime reports back for it, so
  there is no second attempt over the other transport. The transport of a request that is
  issued is the one chosen from the protocol of the parsed endpoint: HTTPS when it is
  \<^verbatim>\<open>https:\<close>, plain HTTP otherwise. When the endpoint is not empty and parses, the file's
  path decodes and the storage read succeeds, exactly that one request is issued.
\<close>

theorem transport_chosen_once_by_scheme:
  "length (requests (fst (sendToImgCast P V s net file))) \<le> 1
   \<and> (\<forall>t opts form. (t, opts, form) \<in> set (requests (fst (sendToImgCast P V s net file))) \<longrightarrow>
        (\<exists>u. URL_new P (baseURL s) = Some u
             \<and> t = (if protocol u = ''https:'' then HTTPS else HTTP)))
   \<and> (\<forall>u d buffer. baseURL s \<noteq> [] \<and> URL_new P (baseURL s) = Some u
         \<and> decodeURI P (path file) = Some d \<and> readBinary V file = Inr buffer \<longrightarrow>
        map fst (requests (fst (sendToImgCast P V s net file)))
          = [if protocol u = ''https:'' then HTTPS else HTTP])"
proof -
  have a: "length (requests (fst (sendToImgCast P V s net file))) \<le> 1"
    by (rule sendToImgCast_requests_le)
  have b: "\<forall>t opts form. (t, opts, form) \<in> set (requests (fst (sendToImgCast P V s net file))) \<longrightarrow>
        (\<exists>u. URL_new P (baseURL s) = Some u
             \<and> t = (if protocol u = ''https:'' then HTTPS else HTTP))"
    using sendToImgCast_request_transport by blast
  have c: "\<forall>u d buffer. baseURL s \<noteq> [] \<and> URL_new P (baseURL s) = Some u
         \<and> decodeURI P (path file) = Some d \<and> readBinary V file = Inr buffer \<longrightarrow>
        map fst (requests (fst (sendToImgCast P V s net file)))
          = [if protocol u = ''https:'' then HTTPS else HTTP]"
    by (simp add: sendToImgCast_requests)
  show ?thesis
    by (intro conjI a b c)
qed

theorem transport_chosen_once_by_scheme_witness:
  "baseURL \<lparr>baseURL = ''https://example.com/upload'', apiKey = ''secret''\<rparr> \<noteq> []
   \<and> URL_new (posix ''/'') (baseURL \<lparr>baseURL = ''https://example.com/upload'', apiKey = ''secret''\<rparr>)
       = Some \<lparr>protocol = ''https:'', hostname = ''example.com'', port = [],
                pathname = ''/upload'', search = [], hash = []\<rparr>
   \<and> decodeURI (posix ''/'') (path \<lparr>path = ''sub/img.png'', extension = ''png''\<rparr>) = Some ''sub/img.png''
   \<and> readBinary sample_vault \<lparr>path = ''sub/img.png'', extension = ''png''\<rparr> = Inr png_bytes
   \<and> map fst (requests (fst (sendToImgCast (posix ''/'')  sample_vault
         \<lparr>baseURL = ''https://example.com/upload'', apiKey = ''secret''\<rparr>
         [OnError ''connect ECONNREFUSED''] \<lparr>path = ''sub/img.png'', extension = ''png''\<rparr>))) = [HTTPS]
   \<and> map fst (requests (fst (sendToImgCast (posix ''/'')  sample_vault DEFAULT_SETTINGS
         [OnError ''connect ECONNREFUSED''] \<lparr>path = ''sub/img.png'', extension = ''png''\<rparr>))) = [HTTP]"
proof -
  note T = transport_chosen_once_by_scheme [of "posix ''/''" sample_vault
      "\<lparr>baseURL = ''https://example.com/upload'', apiKey = ''secret''\<rparr>"
      "[OnError ''connect ECONNREFUSED'']" "\<lparr>path = ''sub/img.png'', extension = ''png''\<rparr>"]
  note U = transport_chosen_once_by_scheme [of "posix ''/''" sample_vault DEFAULT_SETTINGS
      "[OnError ''connect ECONNREFUSED'']" "\<lparr>path = ''sub/img.png'', extension = ''png''\<rparr>"]
  have b: "baseURL \<lparr>baseURL = ''https://example.com/upload'', apiKey = ''secret''\<rparr> \<noteq> []"
    by simp
  have u: "URL_new (posix ''/'') (baseURL \<lparr>baseURL = ''https://example.com/upload'', apiKey = ''secret''\<rparr>)
       = Some \<lparr>protocol = ''https:'', hostname = ''example.com'', port = [],
                pathname = ''/upload'', search = [], hash = []\<rparr>"
    by code_simp
  have d: "decodeURI (posix ''/'') (path \<lparr>path = ''sub/img.png'', extension = ''png''\<rparr>) = Some ''sub/img.png''"
    by code_simp
  have r: "readBinary sample_vault \<lparr>path = ''sub/img.png'', extension = ''png''\<rparr> = Inr png_bytes"
    by (simp add: sample_vault_def)
  have "map fst (requests (fst (sendToImgCast (posix ''/'')  sample_vault
         \<lparr>baseURL = ''https://example.com/upload'', apiKey = ''secret''\<rparr>
         [OnError ''connect ECONNREFUSED''] \<lparr>path = ''sub/img.png'', extension = ''png''\<rparr>)))
       = [if protocol \<lparr>protocol = ''https:'', hostname = ''example.com'', port = [],
                pathname = ''/upload'', search = [], hash = []\<rparr> = ''https:'' then HTTPS else HTTP]"
    using T b u d r by blast
  then have x: "map fst (requests (fst (sendToImgCast (posix ''/'')  sample_vault
         \<lparr>baseURL = ''https://example.com/upload'', apiKey = ''secret''\<rparr>
         [OnError ''connect ECONNREFUSED''] \<lparr>path = ''sub/img.png'', extension = ''png''\<rparr>))) = [HTTPS]"
    by simp
  have b2: "baseURL DEFAULT_SETTINGS \<noteq> []"
    by (simp add: DEFAULT_SETTINGS_def)
  have u2: "URL_new (posix ''/'') (baseURL DEFAULT_SETTINGS)
       = Some \<lparr>protocol = ''http:'', hostname = ''127.0.0.1'', port = ''8080'',
                pathname = ''/upload'', search = [], hash = []\<rparr>"
    by code_simp
  have "map fst (requests (fst (sendToImgCast (posix ''/'')  sample_vault DEFAULT_SETTINGS
         [OnError ''connect ECONNREFUSED''] \<lparr>path = ''sub/img.png'', extension = ''png''\<rparr>)))
       = [if protocol \<lparr>protocol = ''http:'', hostname = ''127.0.0.1'', port = ''8080'',
                pathname = ''/upload'', search = [], hash = []\<rparr> = ''https:'' then HTTPS else HTTP]"
    using U b2 u2 d r by blast
  then have y: "map fst (requests (fst (sendToImgCast (posix ''/'')  sample_vault DEFAULT_SETTINGS
         [OnError ''connect ECONNREFUSED''] \<lparr>path = ''sub/img.png'', extension = ''png''\<rparr>))) = [HTTP]"
    by simp
  show ?thesis
    by (intro conjI b u d r x y)
qed

text \<open>
  C9. Two displayed URLs that parse to the same components except for their query string
  and fragment resolve alike: same effects, same result.
\<close>

theorem query_and_fragment_ignored:
  assumes "URL_new P href1 = Some u"
      and "URL_new P href2 = Some (u\<lparr>search := q, hash := h\<rparr>)"
  shows "getTFileFormHref P V href1 = getTFileFormHref P V href2"
proof -
  have "canonical_path P href1 = canonical_path P href2"
    using assms by (simp add: canonical_path_def)
  then show ?thesis
    by (simp add: getTFileFormHref_def)
qed

theorem query_and_fragment_ignored_witness:
  "URL_new (posix ''/'') ''file:///vault/sub/img.png''
     = Some \<lparr>protocol = ''file:'', hostname = [], port = [], pathname = ''/vault/sub/img.png'',
              search = [], hash = []\<rparr>
   \<and> URL_new (posix ''/'') ''file:///vault/sub/img.png?1700000000#top''
     = Some \<lparr>protocol = ''file:'', hostname = [], port = [], pathname = ''/vault/sub/img.png'',
              search = ''?1700000000'', hash = ''#top''\<rparr>
   \<and> getTFileFormHref (posix ''/'') sample_vault ''file:///vault/sub/img.png''
     = getTFileFormHref (posix ''/'') sample_vault ''file:///vault/sub/img.png?1700000000#top''"
proof -
  have a: "URL_new (posix ''/'') ''file:///vault/sub/img.png''
     = Some \<lparr>protocol = ''file:'', hostname = [], port = [], pathname = ''/vault/sub/img.png'',
              search = [], hash = []\<rparr>"
    by code_simp
  have b: "URL_new (posix ''/'') ''file:///vault/sub/img.png?1700000000#top''
     = Some \<lparr>protocol = ''file:'', hostname = [], port = [], pathname = ''/vault/sub/img.png'',
              search = ''?1700000000'', hash = ''#top''\<rparr>"
    by code_simp
  have b': "URL_new (posix ''/'') ''file:///vault/sub/img.png?1700000000#top''
     = Some (\<lparr>protocol = ''file:'', hostname = [], port = [], pathname = ''/vault/sub/img.png'',
              search = [], hash = []\<rparr>\<lparr>search := ''?1700000000'', hash := ''#top''\<rparr>)"
    using b by simp
  have c: "getTFileFormHref (posix ''/'') sample_vault ''file:///vault/sub/img.png''
     = getTFileFormHref (posix ''/'') sample_vault ''file:///vault/sub/img.png?1700000000#top''"
    by (rule query_and_fragment_ignored [OF a b'])
  show ?thesis
    by (intro conjI a b c)
qed

text \<open>
  C10. With an empty API key and an endpoint that is not empty and parses (the file's path
  decoding and the storage read succeeding), the upload does not issue the notice of a
  missing base URL; it calls \<^verbatim>\<open>request\<close> once, the \<^verbatim>\<open>X-API-Key\<close> header it hands over is the
  empty string, and when \<^verbatim>\<open>request\<close> accepts these options (as Node does) the upload ends
  with no exception. The program validates no key: whatever the key is, it is handed to
  \<^verbatim>\<open>request\<close> as the \<^verbatim>\<open>X-API-Key\<close> header.
\<close>

theorem empty_api_key_is_sent:
  assumes "apiKey s = []"
      and "baseURL s \<noteq> []"
      and "URL_new P (baseURL s) = Some u"
      and "decodeURI P (path file) = Some d"
      and "readBinary V file = Inr buffer"
  shows "missing_base_url_notice \<notin> set (notices (fst (sendToImgCast P V s net file)))
       \<and> (\<exists>t opts form. requests (fst (sendToImgCast P V s net file)) = [(t, opts, form)]
             \<and> map_of (headers opts) ''X-API-Key'' = Some []
             \<and> (request_throws P t opts = None \<longrightarrow>
                  snd (sendToImgCast P V s net file) = Inr ()))
       \<and> (\<forall>k. \<exists>t opts form.
             requests (fst (sendToImgCast P V (s\<lparr>apiKey := k\<rparr>) net file)) = [(t, opts, form)]
             \<and> map_of (headers opts) ''X-API-Key'' = Some k)"
proof -
  have 1: "missing_base_url_notice \<notin> set (notices (fst (sendToImgCast P V s net file)))"
    using assms by (simp add: sendToImgCast_notices callbacks_not_missing_base_url)
  have 2: "\<exists>t opts form. requests (fst (sendToImgCast P V s net file)) = [(t, opts, form)]
             \<and> map_of (headers opts) ''X-API-Key'' = Some []
             \<and> (request_throws P t opts = None \<longrightarrow>
                  snd (sendToImgCast P V s net file) = Inr ())"
  proof -
    from assms(2-5) obtain t opts form
      where q: "requests (fst (sendToImgCast P V s net file)) = [(t, opts, form)]"
        and h: "headers opts = assign ''X-API-Key'' (apiKey s) (encoder_headers P form)"
      by (simp add: sendToImgCast_requests)
    from h assms(1) have x: "map_of (headers opts) ''X-API-Key'' = Some []"
      by (simp add: map_of_assign_same)
    have o: "request_throws P t opts = None \<longrightarrow>
                  snd (sendToImgCast P V s net file) = Inr ()"
      using sendToImgCast_outcome [OF assms(2-5) q] by simp
    show ?thesis
      by (rule exI [of _ t], rule exI [of _ opts], rule exI [of _ form]) (intro conjI q x o)
  qed
  have 3: "\<forall>k. \<exists>t opts form.
             requests (fst (sendToImgCast P V (s\<lparr>apiKey := k\<rparr>) net file)) = [(t, opts, form)]
             \<and> map_of (headers opts) ''X-API-Key'' = Some k"
  proof
    fix k
    have "baseURL (s\<lparr>apiKey := k\<rparr>) \<noteq> []" "URL_new P (baseURL (s\<lparr>apiKey := k\<rparr>)) = Some u"
      using assms(2,3) by simp_all
    from sendToImgCast_requests [OF this assms(4,5)]
    show "\<exists>t opts form.
             requests (fst (sendToImgCast P V (s\<lparr>apiKey := k\<rparr>) net file)) = [(t, opts, form)]
             \<and> map_of (headers opts) ''X-API-Key'' = Some k"
      by (simp add: map_of_assign_same)
  qed
  show ?thesis
    by (intro conjI 1 2 3)
qed

theorem empty_api_key_is_sent_witness:
  "apiKey (DEFAULT_SETTINGS\<lparr>apiKey := []\<rparr>) = []
   \<and> baseURL (DEFAULT_SETTINGS\<lparr>apiKey := []\<rparr>) \<noteq> []
   \<and> URL_new (posix ''/'') (baseURL (DEFAULT_SETTINGS\<lparr>apiKey := []\<rparr>)) = Some \<lparr>protocol = ''http:'', hostname = ''127.0.0.1'', port = ''8080'',
                pathname = ''/upload'', search = [], hash = []\<rparr>
   \<and> decodeURI (posix ''/'') (path \<lparr>path = ''sub/img.png'', extension = ''png''\<rparr>) = Some ''sub/img.png''
   \<and> readBinary sample_vault \<lparr>path = ''sub/img.png'', extension = ''png''\<rparr> = Inr png_bytes
   \<and> request_throws (posix ''/'') HTTP
        \<lparr>req_method = ''POST'', req_path = ''/upload'', req_hostname = ''127.0.0.1'',
          req_port = ''8080'',
          headers = [(''Content-Type'', ''multipart/form-data; boundary=form-data-boundary-0123456789abcdef''),
                     (''Content-Length'', ''181''), (''X-API-Key'', [])]\<rparr> = None
   \<and> requests (fst (sendToImgCast (posix ''/'') sample_vault (DEFAULT_SETTINGS\<lparr>apiKey := []\<rparr>)
         [OnResponse ok_response] \<lparr>path = ''sub/img.png'', extension = ''png''\<rparr>))
       = [(HTTP,
           \<lparr>req_method = ''POST'', req_path = ''/upload'', req_hostname = ''127.0.0.1'',
          req_port = ''8080'',
          headers = [(''Content-Type'', ''multipart/form-data; boundary=form-data-boundary-0123456789abcdef''),
                     (''Content-Length'', ''181''), (''X-API-Key'', [])]\<rparr>,
           [\<lparr>entry_name = ''image'',
           entry_value = \<lparr>blob_parts = [png_bytes], blob_type = ''image/png''\<rparr>,
           entry_filename = ''img.png''\<rparr>])]
   \<and> snd (sendToImgCast (posix ''/'') sample_vault (DEFAULT_SETTINGS\<lparr>apiKey := []\<rparr>)
         [OnResponse ok_response] \<lparr>path = ''sub/img.png'', extension = ''png''\<rparr>) = Inr ()"
proof -
  have k: "apiKey (DEFAULT_SETTINGS\<lparr>apiKey := []\<rparr>) = []"
    by simp
  have b: "baseURL (DEFAULT_SETTINGS\<lparr>apiKey := []\<rparr>) \<noteq> []"
    by (simp add: DEFAULT_SETTINGS_def)
  have u: "URL_new (posix ''/'') (baseURL (DEFAULT_SETTINGS\<lparr>apiKey := []\<rparr>)) = Some \<lparr>protocol = ''http:'', hostname = ''127.0.0.1'', port = ''8080'',
                pathname = ''/upload'', search = [], hash = []\<rparr>"
    by code_simp
  have d: "decodeURI (posix ''/'') (path \<lparr>path = ''sub/img.png'', extension = ''png''\<rparr>) = Some ''sub/img.png''"
    by code_simp
  have r: "readBinary sample_vault \<lparr>path = ''sub/img.png'', extension = ''png''\<rparr> = Inr png_bytes"
    by (simp add: sample_vault_def)
  have a: "request_throws (posix ''/'') HTTP
        \<lparr>req_method = ''POST'', req_path = ''/upload'', req_hostname = ''127.0.0.1'',
          req_port = ''8080'',
          headers = [(''Content-Type'', ''multipart/form-data; boundary=form-data-boundary-0123456789abcdef''),
                     (''Content-Length'', ''181''), (''X-API-Key'', [])]\<rparr> = None"
    by code_simp
  have q: "requests (fst (sendToImgCast (posix ''/'') sample_vault (DEFAULT_SETTINGS\<lparr>apiKey := []\<rparr>)
         [OnResponse ok_response] \<lparr>path = ''sub/img.png'', extension = ''png''\<rparr>))
       = [(HTTP,
           \<lparr>req_method = ''POST'', req_path = ''/upload'', req_hostname = ''127.0.0.1'',
          req_port = ''8080'',
          headers = [(''Content-Type'', ''multipart/form-data; boundary=form-data-boundary-0123456789abcdef''),
                     (''Content-Length'', ''181''), (''X-API-Key'', [])]\<rparr>,
           [\<lparr>entry_name = ''image'',
           entry_value = \<lparr>blob_parts = [png_bytes], blob_type = ''image/png''\<rparr>,
           entry_filename = ''img.png''\<rparr>])]"
    by code_simp
  note T = empty_api_key_is_sent [OF k b u d r, of "[OnResponse ok_response]"]
  from T [THEN conjunct2, THEN conjunct1]
  obtain t opts form
    where e: "requests (fst (sendToImgCast (posix ''/'') sample_vault (DEFAULT_SETTINGS\<lparr>apiKey := []\<rparr>)
         [OnResponse ok_response] \<lparr>path = ''sub/img.png'', extension = ''png''\<rparr>)) = [(t, opts, form)]"
      and x: "map_of (headers opts) ''X-API-Key'' = Some []"
      and i: "request_throws (posix ''/'') t opts = None \<longrightarrow>
         snd (sendToImgCast (posix ''/'') sample_vault (DEFAULT_SETTINGS\<lparr>apiKey := []\<rparr>)
           [OnResponse ok_response] \<lparr>path = ''sub/img.png'', extension = ''png''\<rparr>) = Inr ()"
    apply (elim exE conjE)
    apply (rule that)
      apply assumption+
    done
  from e q have "t = HTTP" and "opts = \<lparr>req_method = ''POST'', req_path = ''/upload'', req_hostname = ''127.0.0.1'',
          req_port = ''8080'',
          headers = [(''Content-Type'', ''multipart/form-data; boundary=form-data-boundary-0123456789abcdef''),
                     (''Content-Length'', ''181''), (''X-API-Key'', [])]\<rparr>"
    by simp_all
  with i a have o: "snd (sendToImgCast (posix ''/'') sample_vault (DEFAULT_SETTINGS\<lparr>apiKey := []\<rparr>)
         [OnResponse ok_response] \<lparr>path = ''sub/img.png'', extension = ''png''\<rparr>) = Inr ()"
    by simp
  show ?thesis
    by (intro conjI k b u d r a q o)
qed

end
